theory Spec2Isabelle
  imports Complex_Main
begin

text \<open>
  The statistics module of the program: from the positions of a robot in each match it
  derives distances, speeds and accelerations, pushes one entry of statistics per match,
  hands the speeds and accelerations of the match to the chart renderer and computes the
  global statistics over all entries.
\<close>

section \<open>JavaScript numbers\<close>

text \<open>
  A number of the program is a binary64 value: a finite number, one of the two zeros, an
  infinity or NaN. \<open>Fin a\<close> is the finite number whose value is the real \<open>a\<close>, \<open>Fin 0\<close>
  being the positive zero, and \<open>NegZero\<close> is the negative zero.
\<close>

datatype jsnum = Fin real | NegZero | PosInf | NegInf | NaN

text \<open>
  What \<open>+\<close>, \<open>*\<close>, \<open>/\<close>, \<open>Math.pow\<close> and \<open>Math.sqrt\<close> return on finite operands
  that are not zero is the exact result rounded to binary64 by the engine, an infinity when
  it overflows and a zero when it underflows. The model does not fix these results: they
  are the five functions of an arithmetic \<open>ar\<close> that every operation below takes, and
  what is proved holds for every arithmetic, so for the engine's. The results on a zero,
  an infinity or NaN, and the quotient by one, are the same in every engine and are
  written out.
\<close>

record js_arith =
  fin_add :: "real \<Rightarrow> real \<Rightarrow> jsnum"
  fin_mul :: "real \<Rightarrow> real \<Rightarrow> jsnum"
  fin_div :: "real \<Rightarrow> real \<Rightarrow> jsnum"
  fin_pow :: "real \<Rightarrow> nat \<Rightarrow> jsnum"
  fin_sqrt :: "real \<Rightarrow> jsnum"

fun is_finite :: "jsnum \<Rightarrow> bool" where
  "is_finite (Fin a) = True"
| "is_finite NegZero = True"
| "is_finite PosInf = False"
| "is_finite NegInf = False"
| "is_finite NaN = False"

fun is_zero :: "jsnum \<Rightarrow> bool" where
  "is_zero (Fin a) = (a = 0)"
| "is_zero NegZero = True"
| "is_zero PosInf = False"
| "is_zero NegInf = False"
| "is_zero NaN = False"

fun is_inf :: "jsnum \<Rightarrow> bool" where
  "is_inf (Fin a) = False"
| "is_inf NegZero = False"
| "is_inf PosInf = True"
| "is_inf NegInf = True"
| "is_inf NaN = False"

text \<open>The sign bit of a number that is not NaN, and the value of a finite number.\<close>

fun negative :: "jsnum \<Rightarrow> bool" where
  "negative (Fin a) = (a < 0)"
| "negative NegZero = True"
| "negative PosInf = False"
| "negative NegInf = True"
| "negative NaN = False"

fun value_of :: "jsnum \<Rightarrow> real" where
  "value_of (Fin a) = a"
| "value_of NegZero = 0"
| "value_of PosInf = 0"
| "value_of NegInf = 0"
| "value_of NaN = 0"

definition zero_of_sign :: "bool \<Rightarrow> jsnum" where
  "zero_of_sign neg = (if neg then NegZero else Fin 0)"

definition inf_of_sign :: "bool \<Rightarrow> jsnum" where
  "inf_of_sign neg = (if neg then NegInf else PosInf)"

text \<open>The unary minus.\<close>

fun js_neg :: "jsnum \<Rightarrow> jsnum" where
  "js_neg (Fin a) = (if a = 0 then NegZero else Fin (- a))"
| "js_neg NegZero = Fin 0"
| "js_neg PosInf = NegInf"
| "js_neg NegInf = PosInf"
| "js_neg NaN = NaN"

text \<open>
  The operator \<open>+\<close> on two numbers. Infinities of opposite signs add to NaN; two zeros
  add to the negative zero only when both are negative; a zero added to another finite
  number leaves it as it is.
\<close>

definition js_add :: "js_arith \<Rightarrow> jsnum \<Rightarrow> jsnum \<Rightarrow> jsnum" where
  "js_add ar a b =
     (if a = NaN \<or> b = NaN then NaN
      else if is_inf a then (if is_inf b \<and> a \<noteq> b then NaN else a)
      else if is_inf b then b
      else if is_zero a \<and> is_zero b then zero_of_sign (negative a \<and> negative b)
      else if is_zero a then b
      else if is_zero b then a
      else fin_add ar (value_of a) (value_of b))"

text \<open>The operator \<open>-\<close> on two numbers: the sum with the operand negated.\<close>

definition js_sub :: "js_arith \<Rightarrow> jsnum \<Rightarrow> jsnum \<Rightarrow> jsnum" where
  "js_sub ar a b = js_add ar a (js_neg b)"

text \<open>
  The operator \<open>*\<close>. The sign of a product is the difference of the signs; an infinity
  times a zero is NaN.
\<close>

definition js_mul :: "js_arith \<Rightarrow> jsnum \<Rightarrow> jsnum \<Rightarrow> jsnum" where
  "js_mul ar a b =
     (if a = NaN \<or> b = NaN then NaN
      else if is_inf a \<or> is_inf b then
        (if is_zero a \<or> is_zero b then NaN else inf_of_sign (negative a \<noteq> negative b))
      else if is_zero a \<or> is_zero b then zero_of_sign (negative a \<noteq> negative b)
      else fin_mul ar (value_of a) (value_of b))"

text \<open>
  The operator \<open>/\<close>. No division raises: a number that is not zero divided by a zero is
  an infinity, a zero divided by a zero and an infinity divided by an infinity are NaN.
  The quotient by one is the dividend.
\<close>

definition js_div :: "js_arith \<Rightarrow> jsnum \<Rightarrow> jsnum \<Rightarrow> jsnum" where
  "js_div ar a b =
     (if a = NaN \<or> b = NaN then NaN
      else if b = Fin 1 then a
      else if is_inf a then (if is_inf b then NaN else inf_of_sign (negative a \<noteq> negative b))
      else if is_inf b then zero_of_sign (negative a \<noteq> negative b)
      else if is_zero b then
        (if is_zero a then NaN else inf_of_sign (negative a \<noteq> negative b))
      else if is_zero a then zero_of_sign (negative a \<noteq> negative b)
      else fin_div ar (value_of a) (value_of b))"

text \<open>
  \<open>Math.pow\<close> with a literal natural exponent (the program only calls it with 2).
\<close>

definition Math_pow :: "js_arith \<Rightarrow> jsnum \<Rightarrow> nat \<Rightarrow> jsnum" where
  "Math_pow ar b n =
     (if n = 0 then Fin 1
      else if b = NaN then NaN
      else if is_inf b then inf_of_sign (negative b \<and> odd n)
      else if is_zero b then zero_of_sign (negative b \<and> odd n)
      else fin_pow ar (value_of b) n)"

definition Math_sqrt :: "js_arith \<Rightarrow> jsnum \<Rightarrow> jsnum" where
  "Math_sqrt ar a =
     (if a = NaN then NaN
      else if is_zero a then a
      else if negative a then NaN
      else if is_inf a then PosInf
      else fin_sqrt ar (value_of a))"

text \<open>
  \<open>Math.round\<close>: the nearest integer, a tie going to the larger one; the negative zero
  for a negative number down to minus one half. The integer nearest to a binary64 number
  is a binary64 number, so this result is exact.
\<close>

fun Math_round :: "jsnum \<Rightarrow> jsnum" where
  "Math_round (Fin a) = (if a < 0 \<and> - (1 / 2) \<le> a then NegZero else Fin (of_int \<lfloor>a + 1 / 2\<rfloor>))"
| "Math_round NegZero = NegZero"
| "Math_round PosInf = PosInf"
| "Math_round NegInf = NegInf"
| "Math_round NaN = NaN"

text \<open>
  The comparison \<open><\<close>, false as soon as an operand is NaN; the two zeros are equal.
\<close>

fun js_less :: "jsnum \<Rightarrow> jsnum \<Rightarrow> bool" where
  "js_less NaN b = False"
| "js_less a NaN = False"
| "js_less a NegInf = False"
| "js_less NegInf b = True"
| "js_less PosInf b = False"
| "js_less a PosInf = True"
| "js_less a b = (value_of a < value_of b)"

text \<open>The comparison \<open><=\<close>.\<close>

definition js_le :: "jsnum \<Rightarrow> jsnum \<Rightarrow> bool" where
  "js_le a b = (a \<noteq> NaN \<and> b \<noteq> NaN \<and> \<not> js_less b a)"

text \<open>
  \<open>Math.max(...xs)\<close> and \<open>Math.min(...xs)\<close>: they start from \<open>-Infinity\<close> and
  \<open>Infinity\<close>, which is their value on no argument, a NaN argument makes the result
  NaN, and the positive zero counts as larger than the negative one.
\<close>

definition max_step :: "jsnum \<Rightarrow> jsnum \<Rightarrow> jsnum" where
  "max_step highest v =
     (if highest = NaN \<or> v = NaN then NaN
      else if v = Fin 0 \<and> highest = NegZero then Fin 0
      else if js_less highest v then v
      else highest)"

definition min_step :: "jsnum \<Rightarrow> jsnum \<Rightarrow> jsnum" where
  "min_step lowest v =
     (if lowest = NaN \<or> v = NaN then NaN
      else if v = NegZero \<and> lowest = Fin 0 then NegZero
      else if js_less v lowest then v
      else lowest)"

definition Math_max :: "jsnum list \<Rightarrow> jsnum" where
  "Math_max xs = foldl max_step NegInf xs"

definition Math_min :: "jsnum list \<Rightarrow> jsnum" where
  "Math_min xs = foldl min_step PosInf xs"

text \<open>\<open>ToNumber\<close> on a coordinate that may be \<open>null\<close>: \<open>null\<close> converts to zero.\<close>

fun ToNumber :: "jsnum option \<Rightarrow> jsnum" where
  "ToNumber None = Fin 0"
| "ToNumber (Some v) = v"

section \<open>The arithmetic of binary64\<close>

text \<open>
  One arithmetic is written out: the exact result rounded to the nearest binary64 number,
  to the one with the even significand on a tie, to an infinity from the middle between
  the largest finite number and \<open>2 ^ 1024\<close> on, and to a zero of the result's sign when
  it is nearer to zero than to the smallest number. A binary64 number is a whole number
  \<open>m\<close> below \<open>2 ^ 53\<close> in size times a power of two \<open>2 ^ e\<close> with \<open>e\<close> from -1074 on; the
  exponent of a result puts \<open>m\<close> between \<open>2 ^ 52\<close> and \<open>2 ^ 53\<close> where -1074 allows it.
  IEEE 754 prescribes this rounding for \<open>+\<close>, \<open>*\<close>, \<open>/\<close> and the square root;
  \<open>Math.pow\<close> is given the same rounding here, which ECMAScript leaves to the engine.
  The theorems of the claims hold for every arithmetic; this one evaluates examples.
\<close>

text \<open>The whole number nearest to a real, the even one on a tie.\<close>

definition rne :: "real \<Rightarrow> int" where
  "rne r =
     (let f = \<lfloor>r\<rfloor>; d = r - of_int f
      in if d < 1 / 2 then f else if 1 / 2 < d then f + 1 else if even f then f else f + 1)"

text \<open>The power of two of an integer exponent.\<close>

definition pow2 :: "int \<Rightarrow> real" where
  "pow2 e = (if 0 \<le> e then 2 ^ nat e else 1 / 2 ^ nat (- e))"

text \<open>The exponent \<open>e\<close> of the binary64 numbers around a real that is not zero.\<close>

definition exponent_of :: "real \<Rightarrow> int" where
  "exponent_of x = max (\<lfloor>log 2 \<bar>x\<bar>\<rfloor> - 52) (- 1074)"

text \<open>The binary64 rounding of a real.\<close>

definition fl64 :: "real \<Rightarrow> jsnum" where
  "fl64 x =
     (if x = 0 then Fin 0
      else let e = exponent_of x; m = rne (x / pow2 e)
           in if 2 ^ 1024 \<le> \<bar>of_int m * pow2 e\<bar> then inf_of_sign (x < 0)
              else if m = 0 then zero_of_sign (x < 0)
              else Fin (of_int m * pow2 e))"

definition binary64 :: js_arith where
  "binary64 =
     \<lparr>fin_add = (\<lambda>a b. fl64 (a + b)),
      fin_mul = (\<lambda>a b. fl64 (a * b)),
      fin_div = (\<lambda>a b. fl64 (a / b)),
      fin_pow = (\<lambda>a n. fl64 (a ^ n)),
      fin_sqrt = (\<lambda>a. fl64 (sqrt a))\<rparr>"

section \<open>Arrays\<close>

text \<open>
  An array is a list; an entry of an array that may hold \<open>undefined\<close> or \<open>null\<close> beside
  objects is an \<open>option\<close>, \<open>None\<close> being the falsy entry. Reading past the end gives
  \<open>undefined\<close>.
\<close>

datatype js_error = TypeError

definition js_index :: "'a option list \<Rightarrow> nat \<Rightarrow> 'a option" where
  "js_index xs i = (if i < length xs then xs ! i else None)"

text \<open>\<open>xs.map((x, i) => f(x, i))\<close>: the callback gets the entry and its index.\<close>

definition map_indexed :: "('a \<Rightarrow> nat \<Rightarrow> 'b) \<Rightarrow> 'a list \<Rightarrow> 'b list" where
  "map_indexed f xs = map (\<lambda>i. f (xs ! i) i) [0..<length xs]"

text \<open>\<open>xs.filter(Boolean)\<close> on an array of objects and \<open>undefined\<close>: the objects stay.\<close>

fun filter_Boolean :: "'a option list \<Rightarrow> 'a list" where
  "filter_Boolean [] = []"
| "filter_Boolean (None # xs) = filter_Boolean xs"
| "filter_Boolean (Some v # xs) = v # filter_Boolean xs"

text \<open>
  \<open>xs.reduce((a, b) => f(a, b))\<close> with no initial value: it raises a TypeError on the
  empty array and otherwise folds from the first entry.
\<close>

fun reduce :: "('a \<Rightarrow> 'a \<Rightarrow> 'a) \<Rightarrow> 'a list \<Rightarrow> js_error + 'a" where
  "reduce f [] = Inl TypeError"
| "reduce f (x # xs) = Inr (foldl f x xs)"

section \<open>The derivations\<close>

text \<open>
  The objects of the three derivations. Two of them have a field \<open>time\<close> and three a field
  \<open>timestamp\<close> in the program; the fields carry the object's initial here:
  a position \<open>{time, x, y}\<close>, a distance \<open>{timestamp, time, distance}\<close>, a speed
  \<open>{timestamp, speed}\<close> and an acceleration \<open>{timestamp, time, acceleration}\<close>.
  A coordinate of a position may be \<open>null\<close>.
\<close>

record point =
  p_time :: jsnum
  p_x :: "jsnum option"
  p_y :: "jsnum option"

record distance =
  d_timestamp :: jsnum
  d_time :: jsnum
  d_distance :: jsnum

record speed =
  s_timestamp :: jsnum
  s_speed :: jsnum

record acceleration =
  a_timestamp :: jsnum
  a_time :: jsnum
  a_acceleration :: jsnum

definition calculateDistances :: "js_arith \<Rightarrow> point option list \<Rightarrow> distance list" where
  "calculateDistances ar points =
     filter_Boolean (map_indexed (\<lambda>point i.
       (case (point, js_index points (i + 1)) of
          (Some p1, Some p2) \<Rightarrow>
            (let distance = Math_sqrt ar (js_add ar
                   (Math_pow ar (js_sub ar (ToNumber (p_x p2)) (ToNumber (p_x p1))) 2)
                   (Math_pow ar (js_sub ar (ToNumber (p_y p2)) (ToNumber (p_y p1))) 2));
                 time = js_sub ar (p_time p2) (p_time p1)
             in Some \<lparr>d_timestamp = p_time p1,
                      d_time = js_div ar (Math_round (js_mul ar time (Fin 10))) (Fin 10),
                      d_distance = distance\<rparr>)
        | _ \<Rightarrow> None)) points)"

definition calculateSpeeds :: "js_arith \<Rightarrow> distance option list \<Rightarrow> speed list" where
  "calculateSpeeds ar distances =
     filter_Boolean (map_indexed (\<lambda>dist i.
       (case (dist, js_index distances (i + 1)) of
          (Some d, Some next) \<Rightarrow>
            (let speed = js_div ar (d_distance d) (d_time d)
             in Some \<lparr>s_timestamp = d_timestamp d,
                      s_speed = js_div ar (Math_round (js_mul ar speed (Fin 100))) (Fin 100)\<rparr>)
        | _ \<Rightarrow> None)) distances)"

definition calculateAccelerations :: "js_arith \<Rightarrow> speed option list \<Rightarrow> acceleration list" where
  "calculateAccelerations ar speeds =
     filter_Boolean (map_indexed (\<lambda>speed i.
       (case (speed, js_index speeds (i + 1)) of
          (Some s1, Some s2) \<Rightarrow>
            (let acceleration = js_sub ar (s_speed s2) (s_speed s1);
                 time = js_sub ar (s_timestamp s2) (s_timestamp s1)
             in Some \<lparr>a_timestamp = s_timestamp s1,
                      a_time = js_div ar (Math_round (js_mul ar time (Fin 10))) (Fin 10),
                      a_acceleration =
                        js_div ar (Math_round (js_mul ar acceleration (Fin 100))) (Fin 100)\<rparr>)
        | _ \<Rightarrow> None)) speeds)"

section \<open>The statistics and the chart data\<close>

text \<open>
  A match as the acquisition hands it over, \<open>{match, team, points}\<close>, and the entry the
  program pushes to \<open>stats.individual_matches\<close> for it.
\<close>

record match_data =
  m_match :: string
  m_team :: int
  m_points :: "point list"

record match_stats =
  ms_match :: string
  ms_team :: int
  ms_maxSpeed_fps :: jsnum
  ms_avgSpeed_fps :: jsnum
  ms_maxAccel_fpsps :: jsnum
  ms_maxBrake_fpsps :: jsnum

text \<open>
  The entries of the chart's data are object literals whose field names the chart
  configuration refers to, so they are kept as lists of named values.
\<close>

datatype js_value = Num jsnum | Str string

type_synonym js_object = "(string \<times> js_value) list"

definition speedData :: "speed list \<Rightarrow> js_object list" where
  "speedData speeds =
     map (\<lambda>s. [(''x'', Num (s_timestamp s)), (''y'', Num (s_speed s)), (''c'', Num (Fin 0))])
       speeds"

definition AccelData :: "acceleration list \<Rightarrow> js_object list" where
  "AccelData accelerations =
     map (\<lambda>a. [(''x'', Num (a_timestamp a)), (''y'', Num (a_acceleration a)),
               (''c'', Num (Fin 1))])
       accelerations"

definition chart_values :: "speed list \<Rightarrow> acceleration list \<Rightarrow> js_object list" where
  "chart_values speeds accelerations = speedData speeds @ AccelData accelerations"

text \<open>The three derived sequences of a match, from its points with both coordinates.\<close>

definition filteredPoints :: "match_data \<Rightarrow> point list" where
  "filteredPoints match = filter (\<lambda>point. p_x point \<noteq> None \<and> p_y point \<noteq> None) (m_points match)"

definition match_distances :: "js_arith \<Rightarrow> match_data \<Rightarrow> distance list" where
  "match_distances ar match = calculateDistances ar (map Some (filteredPoints match))"

definition match_speeds :: "js_arith \<Rightarrow> match_data \<Rightarrow> speed list" where
  "match_speeds ar match = calculateSpeeds ar (map Some (match_distances ar match))"

definition match_accelerations :: "js_arith \<Rightarrow> match_data \<Rightarrow> acceleration list" where
  "match_accelerations ar match = calculateAccelerations ar (map Some (match_speeds ar match))"

text \<open>
  The object pushed for a match. Its average speed reduces the speeds with \<open>+\<close> and no
  initial value, which raises when the match has no speed.
\<close>

definition match_entry :: "js_arith \<Rightarrow> match_data \<Rightarrow> js_error + match_stats" where
  "match_entry ar match =
     (let speeds = match_speeds ar match; accelerations = match_accelerations ar match
      in case reduce (js_add ar) (map s_speed speeds) of
           Inl e \<Rightarrow> Inl e
         | Inr tot \<Rightarrow>
             Inr \<lparr>ms_match = m_match match,
                  ms_team = m_team match,
                  ms_maxSpeed_fps = Math_max (map s_speed speeds),
                  ms_avgSpeed_fps =
                    js_div ar (Math_round (js_mul ar (js_div ar tot (Fin (real (length speeds))))
                                               (Fin 100))) (Fin 100),
                  ms_maxAccel_fpsps = Math_max (map a_acceleration accelerations),
                  ms_maxBrake_fpsps = Math_min (map a_acceleration accelerations)\<rparr>)"

text \<open>
  The module's state \<open>stats\<close>, with the seven global fields unset at first, and the chart
  data handed to the renderer, one entry a match, under the match and team that name its
  file.
\<close>

record stats =
  individual_matches :: "match_stats list"
  maxSpeed_fps :: "jsnum option"
  avgMaxSpeed_fps :: "jsnum option"
  avgSpeed_fps :: "jsnum option"
  maxAccel_fpsps :: "jsnum option"
  avgMaxAccel_fpsps :: "jsnum option"
  maxBrake_fpsps :: "jsnum option"
  avgMaxBrake_fpsps :: "jsnum option"
  charts :: "(string \<times> int \<times> js_object list) list"

definition initial_stats :: stats where
  "initial_stats =
     \<lparr>individual_matches = [], maxSpeed_fps = None, avgMaxSpeed_fps = None,
      avgSpeed_fps = None, maxAccel_fpsps = None, avgMaxAccel_fpsps = None,
      maxBrake_fpsps = None, avgMaxBrake_fpsps = None, charts = []\<rparr>"

text \<open>
  \<open>data.forEach(match => ...)\<close>: an entry that raises ends the loop with the state as
  the earlier matches left it.
\<close>

fun forEach_match :: "js_arith \<Rightarrow> stats \<Rightarrow> match_data list \<Rightarrow> stats \<times> js_error option" where
  "forEach_match ar st [] = (st, None)"
| "forEach_match ar st (match # rest) =
     (case match_entry ar match of
        Inl e \<Rightarrow> (st, Some e)
      | Inr entry \<Rightarrow>
          forEach_match ar
            (st\<lparr>individual_matches := individual_matches st @ [entry],
                charts := charts st @
                  [(m_match match, m_team match,
                    chart_values (match_speeds ar match) (match_accelerations ar match))]\<rparr>)
            rest)"

text \<open>
  The global fields, assigned one after the other from \<open>stats.individual_matches\<close>; each
  average reduces with no initial value and raises on no match.
\<close>

definition global_stats :: "js_arith \<Rightarrow> stats \<Rightarrow> stats \<times> js_error option" where
  "global_stats ar st =
     (let ms = individual_matches st;
          n = Fin (real (length ms));
          st1 = st\<lparr>maxSpeed_fps := Some (Math_max (map ms_maxSpeed_fps ms))\<rparr>
      in case reduce (js_add ar) (map ms_maxSpeed_fps ms) of
           Inl e \<Rightarrow> (st1, Some e)
         | Inr t1 \<Rightarrow>
        (let st2 = st1\<lparr>avgMaxSpeed_fps := Some (js_div ar t1 n)\<rparr>
         in case reduce (js_add ar) (map ms_avgSpeed_fps ms) of
              Inl e \<Rightarrow> (st2, Some e)
            | Inr t2 \<Rightarrow>
        (let st3 = st2\<lparr>avgSpeed_fps := Some (js_div ar t2 n),
                       maxAccel_fpsps := Some (Math_max (map ms_maxAccel_fpsps ms))\<rparr>
         in case reduce (js_add ar) (map ms_maxAccel_fpsps ms) of
              Inl e \<Rightarrow> (st3, Some e)
            | Inr t3 \<Rightarrow>
        (let st4 = st3\<lparr>avgMaxAccel_fpsps := Some (js_div ar t3 n),
                       maxBrake_fpsps := Some (Math_min (map ms_maxBrake_fpsps ms))\<rparr>
         in case reduce (js_add ar) (map ms_maxBrake_fpsps ms) of
              Inl e \<Rightarrow> (st4, Some e)
            | Inr t4 \<Rightarrow> (st4\<lparr>avgMaxBrake_fpsps := Some (js_div ar t4 n)\<rparr>, None)))))"

text \<open>The exported function: the loop over the matches, then the global fields.\<close>

definition calculate_stats :: "js_arith \<Rightarrow> stats \<Rightarrow> match_data list \<Rightarrow> stats \<times> js_error option" where
  "calculate_stats ar st data =
     (case forEach_match ar st data of
        (st', Some e) \<Rightarrow> (st', Some e)
      | (st', None) \<Rightarrow> global_stats ar st')"

section \<open>Example inputs\<close>

text \<open>
  Three positions, the robot moving from the origin to (3, 4) in the first second and
  standing still in the next.
\<close>

definition scenario_A :: "point list" where
  "scenario_A =
     [\<lparr>p_time = Fin 0, p_x = Some (Fin 0), p_y = Some (Fin 0)\<rparr>,
      \<lparr>p_time = Fin 1, p_x = Some (Fin 3), p_y = Some (Fin 4)\<rparr>,
      \<lparr>p_time = Fin 2, p_x = Some (Fin 3), p_y = Some (Fin 4)\<rparr>]"

text \<open>Two segments and two speeds with increasing timestamps.\<close>

definition scenario_A_distances :: "distance list" where
  "scenario_A_distances =
     [\<lparr>d_timestamp = Fin 0, d_time = Fin 1, d_distance = Fin 5\<rparr>,
      \<lparr>d_timestamp = Fin 1, d_time = Fin 1, d_distance = Fin 0\<rparr>]"

definition scenario_A_speeds :: "speed list" where
  "scenario_A_speeds =
     [\<lparr>s_timestamp = Fin 0, s_speed = Fin 5\<rparr>, \<lparr>s_timestamp = Fin 1, s_speed = Fin 0\<rparr>]"

text \<open>Two segments, the first of which has the duration zero.\<close>

definition stalled_distances :: "distance list" where
  "stalled_distances =
     [\<lparr>d_timestamp = Fin 0, d_time = Fin 0, d_distance = Fin 5\<rparr>,
      \<lparr>d_timestamp = Fin 0, d_time = Fin 1, d_distance = Fin 0\<rparr>]"

text \<open>
  A match on the three positions above, and a match that has one position with both
  coordinates and one without.
\<close>

definition scenario_A_match :: match_data where
  "scenario_A_match = \<lparr>m_match = ''2020week0_qm1'', m_team = 254, m_points = scenario_A\<rparr>"

definition one_point_match :: match_data where
  "one_point_match =
     \<lparr>m_match = ''2020week0_qm2'', m_team = 254,
      m_points = [\<lparr>p_time = Fin 0, p_x = Some (Fin 1), p_y = Some (Fin 1)\<rparr>,
                  \<lparr>p_time = Fin 1, p_x = None, p_y = None\<rparr>]\<rparr>"


text \<open>Two segments, the first of distance 29 and duration 200.\<close>

definition slow_distances :: "distance list" where
  "slow_distances =
     [\<lparr>d_timestamp = Fin 0, d_time = Fin 200, d_distance = Fin 29\<rparr>,
      \<lparr>d_timestamp = Fin 200, d_time = Fin 1, d_distance = Fin 0\<rparr>]"

text \<open>
  Two positions at the origin, the second at the binary64 number nearest to 0.15 seconds.
\<close>

definition close_points :: "point list" where
  "close_points =
     [\<lparr>p_time = Fin 0, p_x = Some (Fin 0), p_y = Some (Fin 0)\<rparr>,
      \<lparr>p_time = Fin (5404319552844595 / 2 ^ 55), p_x = Some (Fin 0), p_y = Some (Fin 0)\<rparr>]"

section \<open>A derivation on an array of objects\<close>

text \<open>
  On an array whose entries are all objects, the callback of each derivation returns an
  object at every index but the last, where the entry after it is \<open>undefined\<close>, and
  \<open>filter(Boolean)\<close> drops that one \<open>undefined\<close>.
\<close>

lemma filter_Boolean_append: "filter_Boolean (xs @ ys) = filter_Boolean xs @ filter_Boolean ys"
  by (induction xs rule: filter_Boolean.induct) simp_all

lemma filter_Boolean_map_Some: "filter_Boolean (map (\<lambda>i. Some (h i)) is) = map h is"
  by (induction "is") simp_all

lemma pairs_present:
  "filter_Boolean (map_indexed (\<lambda>x i.
      (case (x, js_index (map Some xs) (i + 1)) of
         (Some a, Some b) \<Rightarrow> Some (g a b)
       | _ \<Rightarrow> None)) (map Some xs))
   = map (\<lambda>i. g (xs ! i) (xs ! Suc i)) [0..<length xs - 1]"
proof (cases xs rule: rev_cases)
  case Nil
  then show ?thesis by (simp add: map_indexed_def)
next
  case (snoc ys y)
  let ?f = "\<lambda>i. (case ((map Some xs) ! i, js_index (map Some xs) (i + 1)) of
         (Some a, Some b) \<Rightarrow> Some (g a b)
       | _ \<Rightarrow> None)"
  have len: "length xs = Suc (length ys)" using snoc by simp
  have a: "map ?f [0..<length ys] = map (\<lambda>i. Some (g (xs ! i) (xs ! Suc i))) [0..<length ys]"
    by (rule map_cong) (simp_all add: js_index_def len)
  have b: "?f (length ys) = None"
    by (simp add: js_index_def len)
  have c: "[0..<length (map Some xs)] = [0..<length ys] @ [length ys]"
    by (simp add: len)
  have "map_indexed (\<lambda>x i.
      (case (x, js_index (map Some xs) (i + 1)) of
         (Some a, Some b) \<Rightarrow> Some (g a b)
       | _ \<Rightarrow> None)) (map Some xs) = map ?f [0..<length ys] @ [?f (length ys)]"
    unfolding map_indexed_def c by (simp only: map_append list.map)
  also have "\<dots> = map (\<lambda>i. Some (g (xs ! i) (xs ! Suc i))) [0..<length ys] @ [None]"
    by (simp only: a b)
  finally show ?thesis
    by (simp add: filter_Boolean_append filter_Boolean_map_Some len)
qed

lemma distances_present:
  "calculateDistances ar (map Some ps) =
     map (\<lambda>i. \<lparr>d_timestamp = p_time (ps ! i),
               d_time = js_div ar (Math_round (js_mul ar
                          (js_sub ar (p_time (ps ! Suc i)) (p_time (ps ! i))) (Fin 10))) (Fin 10),
               d_distance = Math_sqrt ar (js_add ar
                 (Math_pow ar (js_sub ar (ToNumber (p_x (ps ! Suc i))) (ToNumber (p_x (ps ! i)))) 2)
                 (Math_pow ar (js_sub ar (ToNumber (p_y (ps ! Suc i))) (ToNumber (p_y (ps ! i)))) 2))\<rparr>)
       [0..<length ps - 1]"
  unfolding calculateDistances_def Let_def by (rule pairs_present)

lemma speeds_present:
  "calculateSpeeds ar (map Some ds) =
     map (\<lambda>i. \<lparr>s_timestamp = d_timestamp (ds ! i),
               s_speed = js_div ar (Math_round (js_mul ar
                           (js_div ar (d_distance (ds ! i)) (d_time (ds ! i))) (Fin 100))) (Fin 100)\<rparr>)
       [0..<length ds - 1]"
  unfolding calculateSpeeds_def Let_def by (rule pairs_present)

lemma accelerations_present:
  "calculateAccelerations ar (map Some ss) =
     map (\<lambda>i. \<lparr>a_timestamp = s_timestamp (ss ! i),
               a_time = js_div ar (Math_round (js_mul ar
                          (js_sub ar (s_timestamp (ss ! Suc i)) (s_timestamp (ss ! i))) (Fin 10)))
                          (Fin 10),
               a_acceleration = js_div ar (Math_round (js_mul ar
                          (js_sub ar (s_speed (ss ! Suc i)) (s_speed (ss ! i))) (Fin 100)))
                          (Fin 100)\<rparr>)
       [0..<length ss - 1]"
  unfolding calculateAccelerations_def Let_def by (rule pairs_present)

lemma length_calculateDistances:
  "length (calculateDistances ar (map Some ps)) = length ps - 1"
  by (simp add: distances_present)

lemma length_calculateSpeeds: "length (calculateSpeeds ar (map Some ds)) = length ds - 1"
  by (simp add: speeds_present)

lemma length_calculateAccelerations:
  "length (calculateAccelerations ar (map Some ss)) = length ss - 1"
  by (simp add: accelerations_present)

section \<open>Rounding and division by zero\<close>

text \<open>
  \<open>Math.round\<close> of a finite number is a whole number at most one half away from it, or
  the negative zero.
\<close>

lemma Math_round_nearest:
  "Math_round (Fin v) = NegZero \<and> v < 0 \<and> - (1 / 2) \<le> v \<or>
   (\<exists>k::int. Math_round (Fin v) = Fin (of_int k) \<and> \<bar>of_int k - v\<bar> \<le> 1 / 2)"
proof (cases "v < 0 \<and> - (1 / 2) \<le> v")
  case True
  then show ?thesis by simp
next
  case False
  have "of_int \<lfloor>v + 1 / 2\<rfloor> \<le> v + 1 / 2" and "v + 1 / 2 < of_int \<lfloor>v + 1 / 2\<rfloor> + 1"
    by linarith+
  then have "\<bar>of_int \<lfloor>v + 1 / 2\<rfloor> - v\<bar> \<le> 1 / 2" by linarith
  with False show ?thesis by auto
qed

lemma div_zero_not_finite: "is_zero z \<Longrightarrow> \<not> is_finite (js_div ar v z)"
  by (cases v; cases z) (auto simp add: js_div_def inf_of_sign_def)

lemma round2_not_finite:
  "\<not> is_finite v \<Longrightarrow> \<not> is_finite (js_div ar (Math_round (js_mul ar v (Fin 100))) (Fin 100))"
  by (cases v) (simp_all add: js_div_def js_mul_def inf_of_sign_def)

section \<open>Timestamps of the derived sequences\<close>

lemma map_nth_upt: "k \<le> length xs \<Longrightarrow> map (\<lambda>i. h (xs ! i)) [0..<k] = map h (take k xs)"
  by (rule nth_equalityI) simp_all

lemma sorted_wrt_butlast: "sorted_wrt P xs \<Longrightarrow> sorted_wrt P (butlast xs)"
  by (induction xs) (auto dest: in_set_butlastD)

lemma distances_timestamps:
  "map d_timestamp (calculateDistances ar (map Some ps)) = butlast (map p_time ps)"
  by (simp add: distances_present o_def map_nth_upt butlast_conv_take take_map)

lemma speeds_timestamps:
  "map s_timestamp (calculateSpeeds ar (map Some ds)) = butlast (map d_timestamp ds)"
  by (simp add: speeds_present o_def map_nth_upt butlast_conv_take take_map)

lemma accelerations_timestamps:
  "map a_timestamp (calculateAccelerations ar (map Some ss)) = butlast (map s_timestamp ss)"
  by (simp add: accelerations_present o_def map_nth_upt butlast_conv_take take_map)

section \<open>The loop over the matches\<close>

lemma forEach_match_append:
  "forEach_match ar st (xs @ ys) =
     (case forEach_match ar st xs of
        (st', Some e) \<Rightarrow> (st', Some e)
      | (st', None) \<Rightarrow> forEach_match ar st' ys)"
  by (induction xs arbitrary: st) (simp_all split: sum.split)

lemma forEach_match_globals:
  "forEach_match ar st xs = (st', r) \<Longrightarrow>
     maxSpeed_fps st' = maxSpeed_fps st \<and> avgMaxSpeed_fps st' = avgMaxSpeed_fps st \<and>
     avgSpeed_fps st' = avgSpeed_fps st \<and> maxAccel_fpsps st' = maxAccel_fpsps st \<and>
     avgMaxAccel_fpsps st' = avgMaxAccel_fpsps st \<and> maxBrake_fpsps st' = maxBrake_fpsps st \<and>
     avgMaxBrake_fpsps st' = avgMaxBrake_fpsps st"
proof (induction xs arbitrary: st)
  case Nil
  then show ?case by simp
next
  case (Cons x xs)
  show ?case
  proof (cases "match_entry ar x")
    case (Inl e)
    with Cons.prems show ?thesis by simp
  next
    case (Inr entry)
    with Cons.prems Cons.IH [of "st\<lparr>individual_matches := individual_matches st @ [entry],
        charts := charts st @ [(m_match x, m_team x,
          chart_values (match_speeds ar x) (match_accelerations ar x))]\<rparr>"]
    show ?thesis by simp
  qed
qed

lemma match_entry_name: "match_entry ar x = Inr entry \<Longrightarrow> ms_match entry = m_match x"
  by (auto simp add: match_entry_def Let_def split: sum.splits)

lemma forEach_match_entries:
  "forEach_match ar st xs = (st', None) \<Longrightarrow>
     map ms_match (individual_matches st') = map ms_match (individual_matches st) @ map m_match xs"
proof (induction xs arbitrary: st)
  case Nil
  then show ?case by simp
next
  case (Cons x xs)
  show ?case
  proof (cases "match_entry ar x")
    case (Inl e)
    with Cons.prems show ?thesis by simp
  next
    case (Inr entry)
    with Cons.prems Cons.IH [of "st\<lparr>individual_matches := individual_matches st @ [entry],
        charts := charts st @ [(m_match x, m_team x,
          chart_values (match_speeds ar x) (match_accelerations ar x))]\<rparr>"]
    show ?thesis by (simp add: match_entry_name)
  qed
qed

lemma short_match_sequences:
  assumes "length (filteredPoints m) < 2"
  shows "match_distances ar m = []" and "match_speeds ar m = []"
    and "match_accelerations ar m = []"
proof -
  have "length (match_distances ar m) = 0"
    using assms unfolding match_distances_def length_calculateDistances by simp
  then show d: "match_distances ar m = []" by simp
  show s: "match_speeds ar m = []"
    using length_calculateSpeeds [of ar "match_distances ar m"] by (simp add: match_speeds_def d)
  show "match_accelerations ar m = []"
    using length_calculateAccelerations [of ar "match_speeds ar m"]
    by (simp add: match_accelerations_def s)
qed

lemma no_speed_raises: "match_speeds ar m = [] \<Longrightarrow> match_entry ar m = Inl TypeError"
  by (simp add: match_entry_def)

lemma some_speed_entry:
  "match_speeds ar m = s # ss \<Longrightarrow>
     match_entry ar m =
       Inr \<lparr>ms_match = m_match m,
            ms_team = m_team m,
            ms_maxSpeed_fps = Math_max (map s_speed (s # ss)),
            ms_avgSpeed_fps =
              js_div ar (Math_round (js_mul ar
                (js_div ar (foldl (js_add ar) (s_speed s) (map s_speed ss))
                   (Fin (real (Suc (length ss))))) (Fin 100))) (Fin 100),
            ms_maxAccel_fpsps = Math_max (map a_acceleration (match_accelerations ar m)),
            ms_maxBrake_fpsps = Math_min (map a_acceleration (match_accelerations ar m))\<rparr>"
  by (simp add: match_entry_def Let_def)

text \<open>
  A match stops the run exactly when it has no speed: the loop ends there with the state
  of the matches before it, and the global fields are not computed.
\<close>

lemma short_match_raises:
  assumes "length (filteredPoints m) < 2" and "forEach_match ar st pre = (st', None)"
  shows "match_entry ar m = Inl TypeError \<and>
     forEach_match ar st (pre @ m # post) = (st', Some TypeError) \<and>
     calculate_stats ar st (pre @ m # post) = (st', Some TypeError)"
proof -
  have "match_speeds ar m = []" using assms(1) by (rule short_match_sequences)
  then have e: "match_entry ar m = Inl TypeError" by (rule no_speed_raises)
  have f: "forEach_match ar st (pre @ m # post) = (st', Some TypeError)"
    by (simp add: forEach_match_append assms(2) e)
  then have "calculate_stats ar st (pre @ m # post) = (st', Some TypeError)"
    by (simp add: calculate_stats_def)
  with e f show ?thesis by simp
qed

section \<open>Maxima and minima of one value, division by one\<close>

lemma Math_max_single: "Math_max [v] = v"
  by (cases v) (simp_all add: Math_max_def max_step_def)

lemma Math_min_single: "Math_min [v] = v"
  by (cases v) (simp_all add: Math_min_def min_step_def)

lemma js_div_one: "js_div ar v (Fin 1) = v"
  by (simp add: js_div_def)

lemma global_stats_one:
  "global_stats ar (st\<lparr>individual_matches := [m]\<rparr>) =
     (st\<lparr>individual_matches := [m],
         maxSpeed_fps := Some (ms_maxSpeed_fps m),
         avgMaxSpeed_fps := Some (ms_maxSpeed_fps m),
         avgSpeed_fps := Some (ms_avgSpeed_fps m),
         maxAccel_fpsps := Some (ms_maxAccel_fpsps m),
         avgMaxAccel_fpsps := Some (ms_maxAccel_fpsps m),
         maxBrake_fpsps := Some (ms_maxBrake_fpsps m),
         avgMaxBrake_fpsps := Some (ms_maxBrake_fpsps m)\<rparr>, None)"
  by (simp add: global_stats_def Let_def Math_max_single Math_min_single js_div_one)

section \<open>The examples\<close>

lemma scenario_A_filtered: "filteredPoints scenario_A_match = scenario_A"
  by (simp add: filteredPoints_def scenario_A_match_def scenario_A_def)

lemma one_point_filtered: "length (filteredPoints one_point_match) = 1"
  by (simp add: filteredPoints_def one_point_match_def)

lemma scenario_A_match_speeds: "length (match_speeds ar scenario_A_match) = 1"
  unfolding match_speeds_def match_distances_def scenario_A_filtered
    length_calculateSpeeds length_calculateDistances
  by (simp add: scenario_A_def)

lemma scenario_A_match_accelerations: "match_accelerations ar scenario_A_match = []"
proof -
  have "length (match_accelerations ar scenario_A_match) = 0"
    unfolding match_accelerations_def length_calculateAccelerations
    by (simp add: scenario_A_match_speeds)
  then show ?thesis by simp
qed

lemma one_point_entry: "match_entry ar one_point_match = Inl TypeError"
  by (rule no_speed_raises, rule short_match_sequences) (simp add: one_point_filtered)

section \<open>The rounding of binary64\<close>

lemma pow2_powr: "pow2 e = 2 powr (of_int e)"
proof (cases "0 \<le> e")
  case True
  then have "real_of_int e = real (nat e)" by simp
  then have "2 powr (real_of_int e) = (2::real) powr (real (nat e))" by (rule arg_cong)
  also have "\<dots> = 2 ^ nat e" by (rule powr_realpow) simp
  finally show ?thesis using True by (simp only: pow2_def if_True)
next
  case False
  then have "real_of_int e = - real (nat (- e))" by simp
  then have "2 powr (real_of_int e) = (2::real) powr (- real (nat (- e)))" by (rule arg_cong)
  also have "\<dots> = 1 / 2 powr (real (nat (- e)))" by (rule powr_minus_divide)
  also have "2 powr (real (nat (- e))) = (2::real) ^ nat (- e)" by (rule powr_realpow) simp
  finally show ?thesis using False by (simp only: pow2_def if_False)
qed

lemma pow2_add: "pow2 (a + b) = pow2 a * pow2 b"
  by (simp add: pow2_powr powr_add)

lemma pow2_pos: "0 < pow2 m"
  by (simp add: pow2_powr)

lemma pow2_mono: "a \<le> b \<Longrightarrow> pow2 a \<le> pow2 b"
  by (simp add: pow2_powr)

lemma pow2_nat: "pow2 (int n) = 2 ^ n"
  by (simp add: pow2_def)

lemma pow2_quotient: "pow2 (n + d) / pow2 n = pow2 d"
proof -
  have "pow2 (n + d) = pow2 n * pow2 d" by (rule pow2_add)
  moreover have "pow2 n \<noteq> 0" using pow2_pos [of n] by simp
  ultimately show ?thesis by (metis nonzero_mult_div_cancel_left)
qed

lemma floor_log2:
  assumes "pow2 n \<le> x" and "x < pow2 (n + 1)"
  shows "\<lfloor>log 2 x\<rfloor> = n"
proof -
  have pos: "0 < x" using pow2_pos [of n] assms(1) by (rule less_le_trans)
  have "2 powr (real_of_int n) \<le> x" using assms(1) by (simp only: pow2_powr)
  then have lo: "real_of_int n \<le> log 2 x"
    using pos by (simp add: le_log_iff)
  have "x < 2 powr (real_of_int (n + 1))" using assms(2) by (simp only: pow2_powr)
  then have "log 2 x < real_of_int (n + 1)"
    using pos by (simp add: log_less_iff)
  with lo show ?thesis by linarith
qed

lemma fl64_eval:
  assumes "x \<noteq> 0" and "pow2 n \<le> \<bar>x\<bar>" and "\<bar>x\<bar> < pow2 (n + 1)" and "- 1022 \<le> n"
  shows "fl64 x =
     (let m = rne (x / pow2 (n - 52))
      in if 2 ^ 1024 \<le> \<bar>of_int m * pow2 (n - 52)\<bar> then inf_of_sign (x < 0)
         else if m = 0 then zero_of_sign (x < 0)
         else Fin (of_int m * pow2 (n - 52)))"
proof -
  have "\<lfloor>log 2 \<bar>x\<bar>\<rfloor> = n" using assms(2,3) by (rule floor_log2)
  then have "exponent_of x = n - 52" using assms(4) by (simp add: exponent_of_def)
  then show ?thesis using assms(1) by (simp only: fl64_def if_False Let_def)
qed

lemma rne_nearest:
  assumes "of_int k - 1 / 2 < r" and "r < of_int k + 1 / 2"
  shows "rne r = k"
proof (cases "of_int k \<le> r")
  case True
  then have f: "\<lfloor>r\<rfloor> = k" using assms(2) by linarith
  have "r - of_int k < 1 / 2" using assms(2) by simp
  then show ?thesis by (simp add: rne_def Let_def f)
next
  case False
  then have f: "\<lfloor>r\<rfloor> = k - 1" using assms(1) by linarith
  have "1 / 2 < r - of_int (k - 1)" using assms(1) by simp
  then show ?thesis by (simp add: rne_def Let_def f)
qed

lemma fl64_nearest:
  assumes "pow2 n \<le> \<bar>x\<bar>" and "\<bar>x\<bar> < pow2 (n + 1)" and "- 1022 \<le> n" and "n \<le> 1022"
    and "of_int k - 1 / 2 < x / pow2 (n - 52)" and "x / pow2 (n - 52) < of_int k + 1 / 2"
  shows "fl64 x = Fin (of_int k * pow2 (n - 52))"
proof -
  let ?q = "pow2 (n - 52)"
  have q: "0 < ?q" by (rule pow2_pos)
  have x0: "x \<noteq> 0" using assms(1) pow2_pos [of n] by auto
  have m: "rne (x / ?q) = k" using assms(5,6) by (rule rne_nearest)
  have e1: "n - 52 + 53 = n + 1" "n - 52 + 52 = n" by simp_all
  have "\<bar>x\<bar> / ?q < pow2 (n + 1) / ?q"
    using assms(2) q by (rule divide_strict_right_mono)
  moreover have "pow2 (n + 1) / ?q = pow2 53"
    using pow2_quotient [of "n - 52" 53] unfolding e1 .
  moreover have "pow2 n / ?q \<le> \<bar>x\<bar> / ?q"
    using assms(1) q by (simp add: divide_right_mono)
  moreover have "pow2 n / ?q = pow2 52"
    using pow2_quotient [of "n - 52" 52] unfolding e1 .
  moreover have "\<bar>x / ?q\<bar> = \<bar>x\<bar> / ?q"
    using q by (simp only: abs_divide abs_of_pos)
  ultimately have b: "\<bar>x / ?q\<bar> < pow2 53" "pow2 52 \<le> \<bar>x / ?q\<bar>"
    by (simp_all only:)
  have p53: "pow2 53 = real_of_int (2 ^ 53)" and p52: "pow2 52 = real_of_int (2 ^ 52)"
    by (simp_all add: pow2_def)
  have "\<bar>real_of_int k\<bar> < real_of_int (2 ^ 53) + 1 / 2"
    using assms(5,6) b(1) unfolding p53 by linarith
  then have "real_of_int \<bar>k\<bar> < real_of_int (2 ^ 53) + 1 / 2" by simp
  then have "\<bar>k\<bar> \<le> 2 ^ 53" by linarith
  then have kb: "\<bar>real_of_int k\<bar> \<le> pow2 53"
    unfolding p53 by linarith
  have "real_of_int (2 ^ 52) - 1 / 2 < \<bar>real_of_int k\<bar>"
    using assms(5,6) b(2) unfolding p52 by linarith
  then have k0: "k \<noteq> 0" by auto
  have "?q \<le> pow2 970" using assms(4) by (simp add: pow2_mono)
  then have "\<bar>real_of_int k\<bar> * ?q \<le> pow2 53 * pow2 970"
    using kb q by (simp add: mult_mono)
  also have "pow2 53 * pow2 970 = pow2 1023" using pow2_add [of 53 970] by simp
  also have "pow2 1023 < pow2 1024" using pow2_pos [of 1023] pow2_add [of 1023 1] by (simp add: pow2_nat [of 1, simplified])
  finally have "\<bar>real_of_int k * ?q\<bar> < pow2 1024" using q by (simp add: abs_mult)
  moreover have "pow2 1024 = 2 ^ 1024" using pow2_nat [of 1024] by simp
  ultimately have fin: "\<not> 2 ^ 1024 \<le> \<bar>real_of_int k * ?q\<bar>" by simp
  have "fl64 x =
     (if 2 ^ 1024 \<le> \<bar>real_of_int k * ?q\<bar> then inf_of_sign (x < 0)
      else if k = 0 then zero_of_sign (x < 0)
      else Fin (real_of_int k * ?q))"
    unfolding fl64_eval [OF x0 assms(1,2,3)] Let_def m by (rule refl)
  then show ?thesis using fin k0 by (simp only: if_False)
qed

lemma fl64_exact:
  assumes "pow2 n \<le> \<bar>x\<bar>" and "\<bar>x\<bar> < pow2 (n + 1)" and "- 1022 \<le> n" and "n \<le> 1022"
    and "x / pow2 (n - 52) = of_int k"
  shows "fl64 x = Fin x"
proof -
  have "fl64 x = Fin (of_int k * pow2 (n - 52))"
    using assms(1-4) by (rule fl64_nearest) (simp_all add: assms(5))
  moreover have "of_int k * pow2 (n - 52) = x"
    using assms(5) pow2_pos [of "n - 52"] by (simp add: field_simps)
  ultimately show ?thesis by simp
qed

lemma fl64_int:
  assumes "pow2 (int n) \<le> \<bar>real_of_int k\<bar>" and "\<bar>real_of_int k\<bar> < pow2 (int n + 1)"
    and "n \<le> 52"
  shows "fl64 (of_int k) = Fin (of_int k)"
proof -
  have "pow2 (int n - 52) * pow2 (int (52 - n)) = pow2 0"
    using pow2_add [of "int n - 52" "int (52 - n)"] assms(3) by simp
  then have "pow2 (int n - 52) * 2 ^ (52 - n) = 1"
    by (simp only: pow2_nat) (simp add: pow2_def)
  then have "real_of_int k / pow2 (int n - 52) = real_of_int k * 2 ^ (52 - n)"
    using pow2_pos [of "int n - 52"] by (simp add: field_simps)
  then have q: "real_of_int k / pow2 (int n - 52) = real_of_int (k * 2 ^ (52 - n))"
    by simp
  show ?thesis
    by (rule fl64_exact [OF assms(1,2) _ _ q]) (use assms(3) in simp_all)
qed

lemma fl64_small:
  "fl64 1 = Fin 1" "fl64 5 = Fin 5" "fl64 9 = Fin 9" "fl64 10 = Fin 10" "fl64 16 = Fin 16"
  "fl64 25 = Fin 25" "fl64 500 = Fin 500"
  using fl64_int [of 0 1] fl64_int [of 2 5] fl64_int [of 3 9] fl64_int [of 3 10]
    fl64_int [of 4 16] fl64_int [of 4 25] fl64_int [of 8 500]
  by (simp_all add: pow2_def)

lemma fl64_quotient_29_200: "fl64 (29 / 200) = Fin (5224175567749775 / 2 ^ 55)"
proof -
  have "fl64 (29 / 200) = Fin (real_of_int 5224175567749775 * pow2 (- 3 - 52))"
    by (rule fl64_nearest) (simp_all add: pow2_def)
  then show ?thesis by (simp add: pow2_def)
qed

lemma fl64_product_100:
  "fl64 (5224175567749775 / 2 ^ 55 * 100) = Fin (8162774324609023 / 2 ^ 49)"
proof -
  have "fl64 (5224175567749775 / 2 ^ 55 * 100) =
          Fin (real_of_int 8162774324609023 * pow2 (3 - 52))"
    by (rule fl64_nearest) (simp_all add: pow2_def)
  then show ?thesis by (simp add: pow2_def)
qed

lemma fl64_quotient_14_100: "fl64 (14 / 100) = Fin (5044031582654956 / 2 ^ 55)"
proof -
  have "fl64 (14 / 100) = Fin (real_of_int 5044031582654956 * pow2 (- 3 - 52))"
    by (rule fl64_nearest) (simp_all add: pow2_def)
  then show ?thesis by (simp add: pow2_def)
qed

lemma fl64_quotient_15_100: "fl64 (15 / 100) = Fin (5404319552844595 / 2 ^ 55)"
proof -
  have "fl64 (15 / 100) = Fin (real_of_int 5404319552844595 * pow2 (- 3 - 52))"
    by (rule fl64_nearest) (simp_all add: pow2_def)
  then show ?thesis by (simp add: pow2_def)
qed

section \<open>The examples in binary64\<close>

text \<open>
  On the three positions the distances are 5 and 0 over one second each and the speed is
  5. The speed of the distance 29 over the duration 200 is the binary64 number nearest to
  0.14, not the one nearest to 0.15: the quotient is the binary64 number just below
  0.145, and its product with 100 the one just below 14.5. The duration between the times
  0 and 0.15 is the binary64 number nearest to 0.2, not the one nearest to 0.1: the time
  is the binary64 number just below 0.15, and its product with 10 is 1.5.
\<close>

lemma sqrt_25: "sqrt 25 = 5"
proof -
  have "sqrt 25 = sqrt (5\<^sup>2)" by simp
  then show ?thesis by simp
qed

lemma binary64_ops:
  "fin_add binary64 a b = fl64 (a + b)" "fin_mul binary64 a b = fl64 (a * b)"
  "fin_div binary64 a b = fl64 (a / b)" "fin_pow binary64 a n = fl64 (a ^ n)"
  "fin_sqrt binary64 a = fl64 (sqrt a)"
  by (simp_all add: binary64_def)

lemma scenario_A_binary64_distances:
  "calculateDistances binary64 (map Some scenario_A) =
     [\<lparr>d_timestamp = Fin 0, d_time = Fin 1, d_distance = Fin 5\<rparr>,
      \<lparr>d_timestamp = Fin 1, d_time = Fin 1, d_distance = Fin 0\<rparr>]"
proof -
  have up: "[0..<length scenario_A - 1] = [0, 1]"
    by (simp add: scenario_A_def upt_rec)
  have d0: "Math_sqrt binary64 (js_add binary64
      (Math_pow binary64 (js_sub binary64 (Fin 3) (Fin 0)) 2)
      (Math_pow binary64 (js_sub binary64 (Fin 4) (Fin 0)) 2)) = Fin 5"
    by (simp add: js_sub_def js_add_def Math_pow_def Math_sqrt_def binary64_ops fl64_small
        sqrt_25)
  have d1: "Math_sqrt binary64 (js_add binary64
      (Math_pow binary64 (js_sub binary64 (Fin 3) (Fin 3)) 2)
      (Math_pow binary64 (js_sub binary64 (Fin 4) (Fin 4)) 2)) = Fin 0"
    by (simp add: js_sub_def js_add_def Math_pow_def Math_sqrt_def binary64_ops fl64_def
        zero_of_sign_def)
  have t0: "js_div binary64 (Math_round (js_mul binary64
      (js_sub binary64 (Fin 1) (Fin 0)) (Fin 10))) (Fin 10) = Fin 1"
    by (simp add: js_sub_def js_add_def js_mul_def js_div_def binary64_ops fl64_small)
  have t1: "js_div binary64 (Math_round (js_mul binary64
      (js_sub binary64 (Fin 2) (Fin 1)) (Fin 10))) (Fin 10) = Fin 1"
    by (simp add: js_sub_def js_add_def js_mul_def js_div_def binary64_ops fl64_small)
  show ?thesis
    unfolding distances_present up
    by (simp add: scenario_A_def d0 d1 t0 t1)
qed

lemma scenario_A_binary64_speeds:
  "calculateSpeeds binary64 (map Some scenario_A_distances) =
     [\<lparr>s_timestamp = Fin 0, s_speed = Fin 5\<rparr>]"
proof -
  have up: "[0..<length scenario_A_distances - 1] = [0]"
    by (simp add: scenario_A_distances_def)
  have s0: "js_div binary64 (Math_round (js_mul binary64
      (js_div binary64 (Fin 5) (Fin 1)) (Fin 100))) (Fin 100) = Fin 5"
    by (simp add: js_mul_def js_div_def binary64_ops fl64_small)
  show ?thesis
    unfolding speeds_present up
    by (simp add: scenario_A_distances_def s0)
qed

lemma slow_binary64_speed:
  "calculateSpeeds binary64 (map Some slow_distances) =
     [\<lparr>s_timestamp = Fin 0, s_speed = Fin (5044031582654956 / 2 ^ 55)\<rparr>] \<and>
   fl64 (14 / 100) = Fin (5044031582654956 / 2 ^ 55) \<and>
   fl64 (15 / 100) = Fin (5404319552844595 / 2 ^ 55)"
proof -
  have up: "[0..<length slow_distances - 1] = [0]"
    by (simp add: slow_distances_def)
  have q: "js_div binary64 (Fin 29) (Fin 200) = Fin (5224175567749775 / 2 ^ 55)"
    by (simp add: js_div_def binary64_ops fl64_quotient_29_200)
  have p: "js_mul binary64 (Fin (5224175567749775 / 2 ^ 55)) (Fin 100) =
      Fin (8162774324609023 / 2 ^ 49)"
    by (simp add: js_mul_def binary64_ops fl64_product_100 [simplified])
  have r: "Math_round (Fin (8162774324609023 / 2 ^ 49)) = Fin 14"
    by simp
  have d: "js_div binary64 (Fin 14) (Fin 100) = Fin (5044031582654956 / 2 ^ 55)"
    using fl64_quotient_14_100 by (simp add: js_div_def binary64_ops)
  have s0: "js_div binary64 (Math_round (js_mul binary64
      (js_div binary64 (Fin 29) (Fin 200)) (Fin 100))) (Fin 100) =
      Fin (5044031582654956 / 2 ^ 55)"
    unfolding q p r d by (rule refl)
  have "calculateSpeeds binary64 (map Some slow_distances) =
     [\<lparr>s_timestamp = Fin 0, s_speed = Fin (5044031582654956 / 2 ^ 55)\<rparr>]"
    unfolding speeds_present up
    using s0 by (simp add: slow_distances_def)
  then show ?thesis
    using fl64_quotient_14_100 fl64_quotient_15_100 by simp
qed

lemma fl64_product_10: "fl64 (5404319552844595 / 2 ^ 55 * 10) = Fin (3 / 2)"
proof -
  have "fl64 (5404319552844595 / 2 ^ 55 * 10) =
          Fin (real_of_int 6755399441055744 * pow2 (0 - 52))"
    by (rule fl64_nearest) (simp_all add: pow2_def)
  then show ?thesis by (simp add: pow2_def)
qed

lemma fl64_quotient_2_10: "fl64 (2 / 10) = Fin (7205759403792794 / 2 ^ 55)"
proof -
  have "fl64 (2 / 10) = Fin (real_of_int 7205759403792794 * pow2 (- 3 - 52))"
    by (rule fl64_nearest) (simp_all add: pow2_def)
  then show ?thesis by (simp add: pow2_def)
qed

lemma fl64_quotient_1_10: "fl64 (1 / 10) = Fin (7205759403792794 / 2 ^ 56)"
proof -
  have "fl64 (1 / 10) = Fin (real_of_int 7205759403792794 * pow2 (- 4 - 52))"
    by (rule fl64_nearest) (simp_all add: pow2_def)
  then show ?thesis by (simp add: pow2_def)
qed

lemma close_binary64_duration:
  "calculateDistances binary64 (map Some close_points) =
     [\<lparr>d_timestamp = Fin 0, d_time = Fin (7205759403792794 / 2 ^ 55), d_distance = Fin 0\<rparr>] \<and>
   fl64 (15 / 100) = Fin (5404319552844595 / 2 ^ 55) \<and>
   fl64 (2 / 10) = Fin (7205759403792794 / 2 ^ 55) \<and>
   fl64 (1 / 10) = Fin (7205759403792794 / 2 ^ 56)"
proof -
  have up: "[0..<length close_points - 1] = [0]"
    by (simp add: close_points_def)
  have d: "Math_sqrt binary64 (js_add binary64
      (Math_pow binary64 (js_sub binary64 (Fin 0) (Fin 0)) 2)
      (Math_pow binary64 (js_sub binary64 (Fin 0) (Fin 0)) 2)) = Fin 0"
    by (simp add: js_sub_def js_add_def Math_pow_def Math_sqrt_def zero_of_sign_def)
  have s: "js_sub binary64 (Fin (5404319552844595 / 2 ^ 55)) (Fin 0) =
      Fin (5404319552844595 / 2 ^ 55)"
    by (simp add: js_sub_def js_add_def)
  have p: "js_mul binary64 (Fin (5404319552844595 / 2 ^ 55)) (Fin 10) = Fin (3 / 2)"
    by (simp add: js_mul_def binary64_ops fl64_product_10 [simplified])
  have r: "Math_round (Fin (3 / 2)) = Fin 2"
    by simp
  have q: "js_div binary64 (Fin 2) (Fin 10) = Fin (7205759403792794 / 2 ^ 55)"
    using fl64_quotient_2_10 by (simp add: js_div_def binary64_ops)
  have t: "js_div binary64 (Math_round (js_mul binary64
      (js_sub binary64 (Fin (5404319552844595 / 2 ^ 55)) (Fin 0)) (Fin 10))) (Fin 10) =
      Fin (7205759403792794 / 2 ^ 55)"
    unfolding s p r q by (rule refl)
  have "calculateDistances binary64 (map Some close_points) =
     [\<lparr>d_timestamp = Fin 0, d_time = Fin (7205759403792794 / 2 ^ 55), d_distance = Fin 0\<rparr>]"
    unfolding distances_present up
    using d t by (simp add: close_points_def)
  then show ?thesis
    using fl64_quotient_15_100 fl64_quotient_2_10 fl64_quotient_1_10 by simp
qed

section \<open>The distances\<close>



section \<open>The speeds\<close>



section \<open>The lengths of the derived sequences\<close>

text \<open>
  Claim C3. From \<open>n\<close> positions, all present, \<open>calculateDistances\<close> returns \<open>n - 1\<close>
  segments, \<open>calculateSpeeds\<close> on them \<open>n - 2\<close> speeds and \<open>calculateAccelerations\<close> on
  those \<open>n - 3\<close> accelerations, the subtraction of natural numbers stopping at zero. This
  holds for every \<open>n\<close> and whatever the times and coordinates are, so in particular for
  \<open>n \<ge> 2\<close> with increasing finite times.
\<close>

theorem derivation_lengths:
  "length (calculateDistances ar (map Some ps)) = length ps - 1 \<and>
   length (calculateSpeeds ar (map Some (calculateDistances ar (map Some ps)))) =
     length ps - 2 \<and>
   length (calculateAccelerations ar (map Some (calculateSpeeds ar (map Some
             (calculateDistances ar (map Some ps)))))) = length ps - 3"
  unfolding length_calculateDistances length_calculateSpeeds length_calculateAccelerations
  by arith

section \<open>A match with too few positions\<close>

text \<open>
  Claim C4. A match with fewer than two positions that have both coordinates has no
  distance, no speed and no acceleration, and the claim asks that it be left out of the
  statistics with no effect on the global fields. The program misses this case. The
  maximum and the minimum of no value are \<open>-Infinity\<close> and \<open>Infinity\<close>, but the average
  speed reduces the empty array of speeds with no initial value, which raises a
  TypeError. On the match of three positions alone the run ends without an error, with
  one entry and the global maximum speed assigned. With the match of one usable position
  after it, the run ends in the TypeError, in the state the first match left: the global
  fields are never assigned. With that match first, the run ends in the TypeError before
  the other match is looked at.
\<close>

theorem short_match_aborts_run:
  "match_distances ar one_point_match = [] \<and> match_speeds ar one_point_match = [] \<and>
   match_accelerations ar one_point_match = [] \<and>
   snd (calculate_stats ar initial_stats [scenario_A_match]) = None \<and>
   length (individual_matches (fst (calculate_stats ar initial_stats [scenario_A_match]))) = 1 \<and>
   maxSpeed_fps (fst (calculate_stats ar initial_stats [scenario_A_match])) \<noteq> None \<and>
   snd (calculate_stats ar initial_stats [scenario_A_match, one_point_match]) =
     Some TypeError \<and>
   fst (calculate_stats ar initial_stats [scenario_A_match, one_point_match]) =
     fst (forEach_match ar initial_stats [scenario_A_match]) \<and>
   maxSpeed_fps (fst (calculate_stats ar initial_stats [scenario_A_match, one_point_match])) =
     None \<and>
   calculate_stats ar initial_stats [one_point_match, scenario_A_match] =
     (initial_stats, Some TypeError)"
proof -
  have op: "length (filteredPoints one_point_match) < 2" by (simp add: one_point_filtered)
  note seqs = short_match_sequences [OF op, of ar]
  obtain s where sp: "match_speeds ar scenario_A_match = [s]"
    using scenario_A_match_speeds [of ar]
    by (cases "match_speeds ar scenario_A_match") simp_all
  obtain entry where en: "match_entry ar scenario_A_match = Inr entry"
    using some_speed_entry [OF sp] by simp
  let ?st = "initial_stats\<lparr>individual_matches := [entry],
      charts := [(m_match scenario_A_match, m_team scenario_A_match,
        chart_values (match_speeds ar scenario_A_match)
          (match_accelerations ar scenario_A_match))]\<rparr>"
  have fe: "forEach_match ar initial_stats [scenario_A_match] = (?st, None)"
    by (simp add: en initial_stats_def)
  have g: "global_stats ar ?st =
      (?st\<lparr>maxSpeed_fps := Some (ms_maxSpeed_fps entry),
         avgMaxSpeed_fps := Some (ms_maxSpeed_fps entry),
         avgSpeed_fps := Some (ms_avgSpeed_fps entry),
         maxAccel_fpsps := Some (ms_maxAccel_fpsps entry),
         avgMaxAccel_fpsps := Some (ms_maxAccel_fpsps entry),
         maxBrake_fpsps := Some (ms_maxBrake_fpsps entry),
         avgMaxBrake_fpsps := Some (ms_maxBrake_fpsps entry)\<rparr>, None)"
    by (simp add: global_stats_def Let_def Math_max_single Math_min_single js_div_one
        initial_stats_def)
  have alone: "calculate_stats ar initial_stats [scenario_A_match] =
      (?st\<lparr>maxSpeed_fps := Some (ms_maxSpeed_fps entry),
         avgMaxSpeed_fps := Some (ms_maxSpeed_fps entry),
         avgSpeed_fps := Some (ms_avgSpeed_fps entry),
         maxAccel_fpsps := Some (ms_maxAccel_fpsps entry),
         avgMaxAccel_fpsps := Some (ms_maxAccel_fpsps entry),
         maxBrake_fpsps := Some (ms_maxBrake_fpsps entry),
         avgMaxBrake_fpsps := Some (ms_maxBrake_fpsps entry)\<rparr>, None)"
    unfolding calculate_stats_def fe using g by simp
  have both: "calculate_stats ar initial_stats ([scenario_A_match] @ one_point_match # []) =
      (?st, Some TypeError)"
    using short_match_raises [OF op fe] by simp
  have first: "calculate_stats ar initial_stats ([] @ one_point_match # [scenario_A_match]) =
      (initial_stats, Some TypeError)"
    using short_match_raises [OF op, of ar initial_stats "[]" initial_stats] by simp
  have none: "maxSpeed_fps ?st = None" by (simp add: initial_stats_def)
  show ?thesis
    using seqs alone both first fe none by simp
qed

section \<open>The chart data\<close>

text \<open>
  Claim C5, as the program has it. The chart data of a match are the speeds, each as the
  object \<open>{x: timestamp, y: speed, c: 0}\<close>, followed by the accelerations, each as the
  object \<open>{x: timestamp, y: acceleration, c: 1}\<close>: the field that tells the two series
  apart is named \<open>c\<close> and holds the number 0 or 1. The loop hands one such sequence to the
  renderer for each match whose entry did not raise.
\<close>

theorem chart_values_fields:
  "chart_values speeds accelerations =
     map (\<lambda>s. [(''x'', Num (s_timestamp s)), (''y'', Num (s_speed s)), (''c'', Num (Fin 0))])
       speeds @
     map (\<lambda>a. [(''x'', Num (a_timestamp a)), (''y'', Num (a_acceleration a)),
               (''c'', Num (Fin 1))])
       accelerations \<and>
   charts (fst (forEach_match ar st [match])) =
     (case match_entry ar match of
        Inl e \<Rightarrow> charts st
      | Inr entry \<Rightarrow>
          charts st @ [(m_match match, m_team match,
                        chart_values (match_speeds ar match) (match_accelerations ar match))])"
  by (simp add: chart_values_def speedData_def AccelData_def split: sum.split)

text \<open>
  The claim as the specification states it fails: the object made of a speed has no field
  \<open>series\<close> and nowhere the string \<open>speed\<close>.
\<close>

theorem chart_values_series_counterexample:
  "hd (chart_values [\<lparr>s_timestamp = Fin 0, s_speed = Fin 5\<rparr>] []) =
     [(''x'', Num (Fin 0)), (''y'', Num (Fin 5)), (''c'', Num (Fin 0))] \<and>
   hd (chart_values [\<lparr>s_timestamp = Fin 0, s_speed = Fin 5\<rparr>] []) \<noteq>
     [(''x'', Num (Fin 0)), (''y'', Num (Fin 5)), (''series'', Str ''speed'')] \<and>
   map_of (hd (chart_values [\<lparr>s_timestamp = Fin 0, s_speed = Fin 5\<rparr>] [])) ''series'' = None"
  by (simp add: chart_values_def speedData_def AccelData_def)

section \<open>A segment of duration zero\<close>

text \<open>
  Claim C6. When segment \<open>i\<close> has the duration zero, of either sign, and a segment
  follows it, \<open>calculateSpeeds\<close> still emits the sample of index \<open>i\<close>, at the segment's
  timestamp: it divides the distance by zero, and the speed, that quotient multiplied by
  100, rounded and divided by 100, is not finite (an infinity or NaN), in every
  arithmetic.
\<close>

theorem zero_duration_speed_not_finite:
  assumes "Suc i < length ds" and "is_zero (d_time (ds ! i))"
  shows "length (calculateSpeeds ar (map Some ds)) = length ds - 1 \<and>
     s_timestamp (calculateSpeeds ar (map Some ds) ! i) = d_timestamp (ds ! i) \<and>
     s_speed (calculateSpeeds ar (map Some ds) ! i) =
       js_div ar (Math_round (js_mul ar (js_div ar (d_distance (ds ! i)) (d_time (ds ! i)))
                    (Fin 100))) (Fin 100) \<and>
     \<not> is_finite (s_speed (calculateSpeeds ar (map Some ds) ! i))"
proof -
  have i: "i < length ds - 1" using assms by simp
  have "\<not> is_finite (js_div ar (Math_round (js_mul ar
           (js_div ar (d_distance (ds ! i)) (d_time (ds ! i))) (Fin 100))) (Fin 100))"
    by (rule round2_not_finite) (rule div_zero_not_finite [OF assms(2)])
  then show ?thesis
    using i by (simp add: speeds_present)
qed

theorem zero_duration_speed_not_finite_witness:
  "\<forall>ar. Suc 0 < length stalled_distances \<and> d_time (stalled_distances ! 0) = Fin 0 \<and>
     is_zero (d_time (stalled_distances ! 0)) \<and>
     s_speed (calculateSpeeds ar (map Some stalled_distances) ! 0) = PosInf \<and>
     \<not> is_finite (s_speed (calculateSpeeds ar (map Some stalled_distances) ! 0))"
proof
  fix ar
  have h: "Suc 0 < length stalled_distances" by (simp add: stalled_distances_def)
  have z: "d_time (stalled_distances ! 0) = Fin 0" by (simp add: stalled_distances_def)
  have d: "d_distance (stalled_distances ! 0) = Fin 5" by (simp add: stalled_distances_def)
  have iz: "is_zero (d_time (stalled_distances ! 0))" by (simp add: z)
  have v: "js_div ar (Math_round (js_mul ar (js_div ar (Fin 5) (Fin 0)) (Fin 100))) (Fin 100)
           = PosInf"
    by (simp add: js_div_def js_mul_def inf_of_sign_def)
  from zero_duration_speed_not_finite [OF h iz, of ar]
  show "Suc 0 < length stalled_distances \<and> d_time (stalled_distances ! 0) = Fin 0 \<and>
     is_zero (d_time (stalled_distances ! 0)) \<and>
     s_speed (calculateSpeeds ar (map Some stalled_distances) ! 0) = PosInf \<and>
     \<not> is_finite (s_speed (calculateSpeeds ar (map Some stalled_distances) ! 0))"
    using h iz by (simp add: z d v)
qed

section \<open>The global fields of one match\<close>

text \<open>
  Claim C7. When \<open>individual_matches\<close> holds exactly one entry, the global fields are that
  entry's own values and nothing raises: the maximum speed and the average of the maximum
  speeds are its maximum speed, the average of the average speeds is its average speed,
  the maximum acceleration and the average of the maximum accelerations are its maximum
  acceleration, and the maximum braking and the average of the maximum brakings are its
  maximum braking. This holds for every value of the entry's fields, the zeros, the
  infinities and NaN included, and in every arithmetic: the maximum and the minimum of one
  value are that value, the sum of one value is never added, and the quotient by one is
  the dividend.
\<close>

theorem global_stats_single:
  "global_stats ar (st\<lparr>individual_matches := [m]\<rparr>) =
     (st\<lparr>individual_matches := [m],
         maxSpeed_fps := Some (ms_maxSpeed_fps m),
         avgMaxSpeed_fps := Some (ms_maxSpeed_fps m),
         avgSpeed_fps := Some (ms_avgSpeed_fps m),
         maxAccel_fpsps := Some (ms_maxAccel_fpsps m),
         avgMaxAccel_fpsps := Some (ms_maxAccel_fpsps m),
         maxBrake_fpsps := Some (ms_maxBrake_fpsps m),
         avgMaxBrake_fpsps := Some (ms_maxBrake_fpsps m)\<rparr>, None)"
  by (rule global_stats_one)

section \<open>Timestamps\<close>

text \<open>
  Claim C8. Each of the three derivations, on an input whose entries are all present,
  returns one element for each pair of consecutive entries and nothing else: the result is
  one element shorter than the input, and for every index \<open>i\<close> that has a successor its
  \<open>i\<close>-th element is the object made from the entries \<open>i\<close> and \<open>i + 1\<close>, with the
  timestamp of entry \<open>i\<close>, the earlier of the two. So the timestamps of the result are
  those of the input without the last one, and when the timestamps of the input are
  non-decreasing then so are those of the result.
\<close>

theorem timestamps_preserved:
  "length (calculateDistances ar (map Some ps)) = length ps - 1 \<and>
   (\<forall>i. Suc i < length ps \<longrightarrow>
      calculateDistances ar (map Some ps) ! i =
        \<lparr>d_timestamp = p_time (ps ! i),
         d_time = js_div ar (Math_round (js_mul ar
                    (js_sub ar (p_time (ps ! Suc i)) (p_time (ps ! i))) (Fin 10))) (Fin 10),
         d_distance = Math_sqrt ar (js_add ar
           (Math_pow ar (js_sub ar (ToNumber (p_x (ps ! Suc i))) (ToNumber (p_x (ps ! i)))) 2)
           (Math_pow ar (js_sub ar (ToNumber (p_y (ps ! Suc i))) (ToNumber (p_y (ps ! i)))) 2))\<rparr>) \<and>
   map d_timestamp (calculateDistances ar (map Some ps)) = butlast (map p_time ps) \<and>
   (sorted_wrt js_le (map p_time ps) \<longrightarrow>
      sorted_wrt js_le (map d_timestamp (calculateDistances ar (map Some ps)))) \<and>
   length (calculateSpeeds ar (map Some ds)) = length ds - 1 \<and>
   (\<forall>i. Suc i < length ds \<longrightarrow>
      calculateSpeeds ar (map Some ds) ! i =
        \<lparr>s_timestamp = d_timestamp (ds ! i),
         s_speed = js_div ar (Math_round (js_mul ar
                     (js_div ar (d_distance (ds ! i)) (d_time (ds ! i))) (Fin 100))) (Fin 100)\<rparr>) \<and>
   map s_timestamp (calculateSpeeds ar (map Some ds)) = butlast (map d_timestamp ds) \<and>
   (sorted_wrt js_le (map d_timestamp ds) \<longrightarrow>
      sorted_wrt js_le (map s_timestamp (calculateSpeeds ar (map Some ds)))) \<and>
   length (calculateAccelerations ar (map Some ss)) = length ss - 1 \<and>
   (\<forall>i. Suc i < length ss \<longrightarrow>
      calculateAccelerations ar (map Some ss) ! i =
        \<lparr>a_timestamp = s_timestamp (ss ! i),
         a_time = js_div ar (Math_round (js_mul ar
                    (js_sub ar (s_timestamp (ss ! Suc i)) (s_timestamp (ss ! i))) (Fin 10)))
                    (Fin 10),
         a_acceleration = js_div ar (Math_round (js_mul ar
                    (js_sub ar (s_speed (ss ! Suc i)) (s_speed (ss ! i))) (Fin 100)))
                    (Fin 100)\<rparr>) \<and>
   map a_timestamp (calculateAccelerations ar (map Some ss)) = butlast (map s_timestamp ss) \<and>
   (sorted_wrt js_le (map s_timestamp ss) \<longrightarrow>
      sorted_wrt js_le (map a_timestamp (calculateAccelerations ar (map Some ss))))"
proof -
  have lt: "i < n - 1" if "Suc i < n" for i n :: nat
    using that by simp
  have d: "\<forall>i. Suc i < length ps \<longrightarrow>
      calculateDistances ar (map Some ps) ! i =
        \<lparr>d_timestamp = p_time (ps ! i),
         d_time = js_div ar (Math_round (js_mul ar
                    (js_sub ar (p_time (ps ! Suc i)) (p_time (ps ! i))) (Fin 10))) (Fin 10),
         d_distance = Math_sqrt ar (js_add ar
           (Math_pow ar (js_sub ar (ToNumber (p_x (ps ! Suc i))) (ToNumber (p_x (ps ! i)))) 2)
           (Math_pow ar (js_sub ar (ToNumber (p_y (ps ! Suc i))) (ToNumber (p_y (ps ! i)))) 2))\<rparr>"
  proof (intro allI impI)
    fix i assume "Suc i < length ps"
    then have "i < length ps - 1" by (rule lt)
    then show "calculateDistances ar (map Some ps) ! i =
        \<lparr>d_timestamp = p_time (ps ! i),
         d_time = js_div ar (Math_round (js_mul ar
                    (js_sub ar (p_time (ps ! Suc i)) (p_time (ps ! i))) (Fin 10))) (Fin 10),
         d_distance = Math_sqrt ar (js_add ar
           (Math_pow ar (js_sub ar (ToNumber (p_x (ps ! Suc i))) (ToNumber (p_x (ps ! i)))) 2)
           (Math_pow ar (js_sub ar (ToNumber (p_y (ps ! Suc i))) (ToNumber (p_y (ps ! i)))) 2))\<rparr>"
      by (simp add: distances_present)
  qed
  have s: "\<forall>i. Suc i < length ds \<longrightarrow>
      calculateSpeeds ar (map Some ds) ! i =
        \<lparr>s_timestamp = d_timestamp (ds ! i),
         s_speed = js_div ar (Math_round (js_mul ar
                     (js_div ar (d_distance (ds ! i)) (d_time (ds ! i))) (Fin 100))) (Fin 100)\<rparr>"
  proof (intro allI impI)
    fix i assume "Suc i < length ds"
    then have "i < length ds - 1" by (rule lt)
    then show "calculateSpeeds ar (map Some ds) ! i =
        \<lparr>s_timestamp = d_timestamp (ds ! i),
         s_speed = js_div ar (Math_round (js_mul ar
                     (js_div ar (d_distance (ds ! i)) (d_time (ds ! i))) (Fin 100))) (Fin 100)\<rparr>"
      by (simp add: speeds_present)
  qed
  have a: "\<forall>i. Suc i < length ss \<longrightarrow>
      calculateAccelerations ar (map Some ss) ! i =
        \<lparr>a_timestamp = s_timestamp (ss ! i),
         a_time = js_div ar (Math_round (js_mul ar
                    (js_sub ar (s_timestamp (ss ! Suc i)) (s_timestamp (ss ! i))) (Fin 10)))
                    (Fin 10),
         a_acceleration = js_div ar (Math_round (js_mul ar
                    (js_sub ar (s_speed (ss ! Suc i)) (s_speed (ss ! i))) (Fin 100)))
                    (Fin 100)\<rparr>"
  proof (intro allI impI)
    fix i assume "Suc i < length ss"
    then have "i < length ss - 1" by (rule lt)
    then show "calculateAccelerations ar (map Some ss) ! i =
        \<lparr>a_timestamp = s_timestamp (ss ! i),
         a_time = js_div ar (Math_round (js_mul ar
                    (js_sub ar (s_timestamp (ss ! Suc i)) (s_timestamp (ss ! i))) (Fin 10)))
                    (Fin 10),
         a_acceleration = js_div ar (Math_round (js_mul ar
                    (js_sub ar (s_speed (ss ! Suc i)) (s_speed (ss ! i))) (Fin 100)))
                    (Fin 100)\<rparr>"
      by (simp add: accelerations_present)
  qed
  have sd: "sorted_wrt js_le (map p_time ps) \<longrightarrow>
      sorted_wrt js_le (map d_timestamp (calculateDistances ar (map Some ps)))"
    unfolding distances_timestamps by (simp add: sorted_wrt_butlast)
  have ssp: "sorted_wrt js_le (map d_timestamp ds) \<longrightarrow>
      sorted_wrt js_le (map s_timestamp (calculateSpeeds ar (map Some ds)))"
    unfolding speeds_timestamps by (simp add: sorted_wrt_butlast)
  have sa: "sorted_wrt js_le (map s_timestamp ss) \<longrightarrow>
      sorted_wrt js_le (map a_timestamp (calculateAccelerations ar (map Some ss)))"
    unfolding accelerations_timestamps by (simp add: sorted_wrt_butlast)
  from d s a sd ssp sa show ?thesis
    by (simp only: length_calculateDistances length_calculateSpeeds
        length_calculateAccelerations distances_timestamps speeds_timestamps
        accelerations_timestamps simp_thms)
qed

theorem timestamps_preserved_witness:
  "\<forall>ar. sorted_wrt js_le (map p_time scenario_A) \<and> Suc 0 < length scenario_A \<and>
     map d_timestamp (calculateDistances ar (map Some scenario_A)) = [Fin 0, Fin 1] \<and>
     sorted_wrt js_le (map d_timestamp (calculateDistances ar (map Some scenario_A))) \<and>
     sorted_wrt js_le (map d_timestamp scenario_A_distances) \<and>
     Suc 0 < length scenario_A_distances \<and>
     map s_timestamp (calculateSpeeds ar (map Some scenario_A_distances)) = [Fin 0] \<and>
     sorted_wrt js_le (map s_timestamp (calculateSpeeds ar (map Some scenario_A_distances))) \<and>
     sorted_wrt js_le (map s_timestamp scenario_A_speeds) \<and>
     Suc 0 < length scenario_A_speeds \<and>
     map a_timestamp (calculateAccelerations ar (map Some scenario_A_speeds)) = [Fin 0] \<and>
     sorted_wrt js_le (map a_timestamp (calculateAccelerations ar (map Some scenario_A_speeds)))"
proof
  fix ar
  have p: "sorted_wrt js_le (map p_time scenario_A)"
    by (simp add: scenario_A_def js_le_def)
  have d: "sorted_wrt js_le (map d_timestamp scenario_A_distances)"
    by (simp add: scenario_A_distances_def js_le_def)
  have s: "sorted_wrt js_le (map s_timestamp scenario_A_speeds)"
    by (simp add: scenario_A_speeds_def js_le_def)
  have l: "Suc 0 < length scenario_A" "Suc 0 < length scenario_A_distances"
    "Suc 0 < length scenario_A_speeds"
    by (simp_all add: scenario_A_def scenario_A_distances_def scenario_A_speeds_def)
  have b: "butlast (map p_time scenario_A) = [Fin 0, Fin 1]"
    "butlast (map d_timestamp scenario_A_distances) = [Fin 0]"
    "butlast (map s_timestamp scenario_A_speeds) = [Fin 0]"
    by (simp_all add: scenario_A_def scenario_A_distances_def scenario_A_speeds_def)
  note t = timestamps_preserved [of ar scenario_A scenario_A_distances scenario_A_speeds]
  from t p d s
  have "map d_timestamp (calculateDistances ar (map Some scenario_A)) =
          butlast (map p_time scenario_A)"
    and "sorted_wrt js_le (map d_timestamp (calculateDistances ar (map Some scenario_A)))"
    and "map s_timestamp (calculateSpeeds ar (map Some scenario_A_distances)) =
          butlast (map d_timestamp scenario_A_distances)"
    and "sorted_wrt js_le (map s_timestamp (calculateSpeeds ar (map Some scenario_A_distances)))"
    and "map a_timestamp (calculateAccelerations ar (map Some scenario_A_speeds)) =
          butlast (map s_timestamp scenario_A_speeds)"
    and "sorted_wrt js_le
           (map a_timestamp (calculateAccelerations ar (map Some scenario_A_speeds)))"
    by blast+
  then show "sorted_wrt js_le (map p_time scenario_A) \<and> Suc 0 < length scenario_A \<and>
     map d_timestamp (calculateDistances ar (map Some scenario_A)) = [Fin 0, Fin 1] \<and>
     sorted_wrt js_le (map d_timestamp (calculateDistances ar (map Some scenario_A))) \<and>
     sorted_wrt js_le (map d_timestamp scenario_A_distances) \<and>
     Suc 0 < length scenario_A_distances \<and>
     map s_timestamp (calculateSpeeds ar (map Some scenario_A_distances)) = [Fin 0] \<and>
     sorted_wrt js_le (map s_timestamp (calculateSpeeds ar (map Some scenario_A_distances))) \<and>
     sorted_wrt js_le (map s_timestamp scenario_A_speeds) \<and>
     Suc 0 < length scenario_A_speeds \<and>
     map a_timestamp (calculateAccelerations ar (map Some scenario_A_speeds)) = [Fin 0] \<and>
     sorted_wrt js_le (map a_timestamp (calculateAccelerations ar (map Some scenario_A_speeds)))"
    using p d s l by (simp only: b simp_thms)
qed

section \<open>Short inputs\<close>

text \<open>
  Claim C9. Each of the three derivations returns the empty array on the empty array and
  on an array of one entry, whether that entry is an object or \<open>undefined\<close>. The callbacks
  only read fields of entries they have found to be objects, so no derivation has a path
  that raises: they are total functions here.
\<close>

theorem short_input_gives_empty:
  "calculateDistances ar [] = [] \<and> calculateDistances ar [p] = [] \<and>
   calculateSpeeds ar [] = [] \<and> calculateSpeeds ar [d] = [] \<and>
   calculateAccelerations ar [] = [] \<and> calculateAccelerations ar [s] = []"
  by (simp add: calculateDistances_def calculateSpeeds_def calculateAccelerations_def
      map_indexed_def js_index_def split: option.split)

section \<open>The global averages\<close>



end
